theory Spec2Isabelle
  imports Main "HOL-Library.Word"
begin

section \<open>Go values used by the library\<close>

text \<open>
  The library is written in Go for a 64-bit platform. A Go \<open>int\<close> that the code counts
  with (\<open>requestCount\<close>, \<open>RetryCount\<close>, \<open>Timeout\<close>) is a 64-bit two's complement word,
  and so is a \<open>time.Duration\<close> (nanoseconds in an \<open>int64\<close>): \<open>+\<close> and \<open>*\<close> wrap around,
  comparisons are signed. HTTP status codes are only compared with constants, never
  computed with, and are kept as integers.

  A byte slice is a list of characters (an Isabelle \<open>char\<close> is a byte), with \<open>None\<close> for
  the nil slice. An \<open>error\<close> returned by the library is the text of its \<open>Error()\<close>
  method, with \<open>None\<close> for nil.
\<close>

type_synonym go_int = "64 word"
type_synonym Duration = "64 word"
type_synonym bytes = "string option"
type_synonym Header = "(string \<times> string list) list"
type_synonym go_error = "string option"

definition Millisecond :: Duration where
  "Millisecond = 1000000"

definition Second :: Duration where
  "Second = 1000000000"

text \<open>The conversion \<open>string(b)\<close> of a byte slice: the same bytes, nil giving the empty string.\<close>

definition string_of_bytes :: "bytes \<Rightarrow> string" where
  "string_of_bytes b = (case b of None \<Rightarrow> [] | Some s \<Rightarrow> s)"

text \<open>The status codes of \<open>net/http\<close> that the library names.\<close>

definition StatusBadRequest :: int where "StatusBadRequest = 400"
definition StatusUnauthorized :: int where "StatusUnauthorized = 401"
definition StatusForbidden :: int where "StatusForbidden = 403"
definition StatusNotFound :: int where "StatusNotFound = 404"
definition StatusMethodNotAllowed :: int where "StatusMethodNotAllowed = 405"
definition StatusNotAcceptable :: int where "StatusNotAcceptable = 406"
definition StatusRequestTimeout :: int where "StatusRequestTimeout = 408"
definition StatusConflict :: int where "StatusConflict = 409"
definition StatusTooManyRequests :: int where "StatusTooManyRequests = 429"
definition StatusInternalServerError :: int where "StatusInternalServerError = 500"
definition StatusBadGateway :: int where "StatusBadGateway = 502"
definition StatusServiceUnavailable :: int where "StatusServiceUnavailable = 503"
definition StatusGatewayTimeout :: int where "StatusGatewayTimeout = 504"

definition MethodPost :: string where
  "MethodPost = ''POST''"


section \<open>Package accounterrors (errors/errors.go)\<close>

text \<open>\<open>ErrorMap\<close>: the map literal, in the order of the source.\<close>

definition ErrorMap_entries :: "(int \<times> string) list" where
  "ErrorMap_entries =
    [(StatusBadRequest, ''bad request''),
     (StatusUnauthorized, ''unauthorized''),
     (StatusForbidden, ''forbidden''),
     (StatusNotFound, ''resource not found''),
     (StatusMethodNotAllowed, ''incorrect http method''),
     (StatusNotAcceptable, ''incorrect content type''),
     (StatusConflict, ''request conflict''),
     (StatusTooManyRequests, ''too many requests''),
     (StatusInternalServerError, ''internal server error''),
     (StatusBadGateway, ''bad gateway''),
     (StatusServiceUnavailable, ''service unavailable''),
     (StatusGatewayTimeout, ''gateway timeout'')]"

definition ErrorMap :: "int \<rightharpoonup> string" where
  "ErrorMap = map_of ErrorMap_entries"

text \<open>
  \<open>HandleErrorStatusCode\<close>: \<open>fmt.Errorf("%s: %s", errMsg, string(response))\<close> when the
  status code is a key of the map, \<open>fmt.Errorf("internal error: %s", string(response))\<close>
  otherwise. The returned error is never nil.
\<close>

definition HandleErrorStatusCode :: "int \<Rightarrow> bytes \<Rightarrow> go_error" where
  "HandleErrorStatusCode statusCode response =
    (case ErrorMap statusCode of
       Some errMsg \<Rightarrow> Some (errMsg @ '': '' @ string_of_bytes response)
     | None \<Rightarrow> Some (''internal error: '' @ string_of_bytes response))"


section \<open>Package httprequest (httprequest/httprequest.go)\<close>

subsection \<open>Constants and data\<close>

definition defaultRetryCount :: go_int where
  "defaultRetryCount = 3"

definition defaultMaxIdleConnection :: go_int where
  "defaultMaxIdleConnection = 100"

definition defaultKeepAliveTime :: Duration where
  "defaultKeepAliveTime = 30 * Second"

definition defaultIdleConnectionTimeout :: Duration where
  "defaultIdleConnectionTimeout = 30 * Second"

definition defaultTimeout :: Duration where
  "defaultTimeout = 5 * Second"

definition defaultRequestType :: string where
  "defaultRequestType = ''application/json''"

record Transport =
  KeepAlive :: Duration
  MaxIdleConns :: go_int
  IdleConnTimeout :: Duration
  TLSHandshakeTimeout :: Duration
  MaxIdleConnsPerHost :: go_int

definition defaultTransport :: Transport where
  "defaultTransport =
    \<lparr>KeepAlive = defaultKeepAliveTime,
     MaxIdleConns = defaultMaxIdleConnection,
     IdleConnTimeout = defaultIdleConnectionTimeout,
     TLSHandshakeTimeout = 10 * Second,
     MaxIdleConnsPerHost = defaultMaxIdleConnection\<rparr>"

definition defaultRetryStatusCodes :: "int list" where
  "defaultRetryStatusCodes =
    [StatusRequestTimeout, StatusGatewayTimeout, StatusServiceUnavailable]"

text \<open>
  \<open>RequestSpecifications\<close>, field by field. The caller passes a pointer to it, so what
  the library writes into it is seen by the caller: the functions below return the
  structure as it is after the call.
\<close>

record RequestSpecifications =
  URL :: string
  HTTPMethod :: string
  Params :: bytes
  Timeout :: go_int
  RetryCount :: go_int

text \<open>
  \<open>http.Client\<close>, with the two fields the library sets. \<open>ClientTimeout\<close> is the field
  \<open>Timeout\<close> of \<open>http.Client\<close> (the name \<open>Timeout\<close> is taken by the specification's
  field). \<open>RequestHandler\<close> holds a pointer to the client: the handler returned by a call
  carries the client as the call left it.
\<close>

record http_Client =
  ClientTransport :: "Transport option"
  ClientTimeout :: Duration

record RequestHandler =
  HTTPClient :: http_Client

text \<open>\<open>http.Request\<close> as far as the library touches it.\<close>

record Request =
  Method :: string
  RequestURL :: string
  RequestHeader :: Header
  RequestBody :: "string option"

text \<open>
  What \<open>http.Client.Do\<close> gives back. An error of the transport carries its message and
  whether \<open>os.IsTimeout\<close> holds of it. A response carries its status code, its headers
  and its body, a reader: \<open>BodyContent\<close> is what \<open>ReadFrom\<close> reads from it into the
  buffer and \<open>BodyReadError\<close> the error \<open>ReadFrom\<close> ends with (nil after a full read).
\<close>

datatype transport_error = TransportError (Error: string) (IsTimeout: bool)

record Response =
  StatusCode :: int
  ResponseHeader :: "Header option"
  BodyContent :: string
  BodyReadError :: "transport_error option"

datatype do_result = DoError transport_error | DoResponse Response

text \<open>
  The world outside the repository, as a parameter: \<open>http.NewRequest\<close> of the standard
  library (the error text for a method or URL it refuses, the request otherwise), and
  the network: \<open>Do env n client request\<close> is what the \<open>n\<close>-th call of
  \<open>http.Client.Do\<close> in a dispatch (counted from 0) returns, and \<open>Consumed env n client
  request\<close> is the number of bytes that this call reads from the body of the request
  while it sends it.
\<close>

record environment =
  NewRequest :: "string \<Rightarrow> string \<Rightarrow> string + Request"
  Do :: "nat \<Rightarrow> http_Client \<Rightarrow> Request \<Rightarrow> do_result"
  Consumed :: "nat \<Rightarrow> http_Client \<Rightarrow> Request \<Rightarrow> nat"

text \<open>
  The body of a request is a reader over one buffer (\<open>prepareRequestBody\<close>), and
  \<open>RequestBody\<close> is what is left in it. \<open>http.NewRequest\<close> is called with a nil body, so the
  request has no \<open>GetBody\<close>, and the library never sets the body again: what a call of
  \<open>Do\<close> has read from the buffer is gone for every later call on the same request.
  \<open>after_Do\<close> is the request as the \<open>n\<close>-th call leaves it.
\<close>

definition after_Do :: "environment \<Rightarrow> nat \<Rightarrow> http_Client \<Rightarrow> Request \<Rightarrow> Request" where
  "after_Do env n client request =
    request\<lparr>RequestBody := map_option (drop (Consumed env n client request))
                                       (RequestBody request)\<rparr>"

text \<open>A Go call either returns or panics.\<close>

datatype 'a outcome = Panic | Returned 'a

text \<open>
  What a dispatch does to the world, in order: requests sent, each with the client and
  as the request is at that moment, and sleeps.
\<close>

datatype effect = Sent http_Client Request | Slept Duration

fun attempts :: "effect list \<Rightarrow> nat" where
  "attempts [] = 0"
| "attempts (Sent c q # es) = Suc (attempts es)"
| "attempts (Slept d # es) = attempts es"

fun sleeps :: "effect list \<Rightarrow> Duration list" where
  "sleeps [] = []"
| "sleeps (Sent c q # es) = sleeps es"
| "sleeps (Slept d # es) = d # sleeps es"



subsection \<open>NewRequestHandler\<close>

definition NewRequestHandler :: "http_Client option \<Rightarrow> RequestHandler" where
  "NewRequestHandler customClient =
    (case customClient of
       Some c \<Rightarrow> \<lparr>HTTPClient = c\<rparr>
     | None \<Rightarrow>
         \<lparr>HTTPClient = \<lparr>ClientTransport = Some defaultTransport, ClientTimeout = defaultTimeout\<rparr>\<rparr>)"


subsection \<open>prepareRequest\<close>

text \<open>\<open>prepareRequestBody\<close>: a reader over the bytes of \<open>params\<close>.\<close>

definition prepareRequestBody :: "bytes \<Rightarrow> string" where
  "prepareRequestBody params = string_of_bytes params"

text \<open>\<open>Header.Add\<close>: appends the value to the values of the key.\<close>

fun Header_Add :: "string \<Rightarrow> string \<Rightarrow> Header \<Rightarrow> Header" where
  "Header_Add k v [] = [(k, [v])]"
| "Header_Add k v ((k', vs) # h) =
    (if k' = k then (k', vs @ [v]) # h else (k', vs) # Header_Add k v h)"

text \<open>
  \<open>prepareRequest\<close> returns the client, the request (nil after an error) and the error,
  and here also the handler and the specification as it leaves them: it writes
  \<open>specs.RetryCount\<close> and \<open>r.HTTPClient.Timeout\<close>. \<open>Header.Add\<close> stores the key in its
  canonical form \<open>Content-Type\<close>.
\<close>

definition prepareRequest ::
  "environment \<Rightarrow> RequestHandler \<Rightarrow> RequestSpecifications \<Rightarrow>
     (http_Client \<times> Request option \<times> go_error) \<times> RequestHandler \<times> RequestSpecifications"
where
  "prepareRequest env r specs =
    (case NewRequest env (HTTPMethod specs) (URL specs) of
       Inl e \<Rightarrow>
         ((HTTPClient r, None, Some (''unable to create http request. error: '' @ e)), r, specs)
     | Inr req \<Rightarrow>
         (let specs1 = (if RetryCount specs = 0
                        then specs\<lparr>RetryCount := defaultRetryCount\<rparr> else specs);
              r1 = (if Timeout specs1 \<noteq> 0
                    then r\<lparr>HTTPClient := (HTTPClient r)\<lparr>ClientTimeout := Timeout specs1 * Second\<rparr>\<rparr>
                    else r);
              req1 = (if HTTPMethod specs1 = MethodPost
                      then req\<lparr>RequestHeader :=
                                  Header_Add ''Content-Type'' defaultRequestType (RequestHeader req),
                                RequestBody := Some (prepareRequestBody (Params specs1))\<rparr>
                      else req)
          in ((HTTPClient r1, Some req1, None), r1, specs1)))"


subsection \<open>checkRetryRequired\<close>

text \<open>The loop over \<open>defaultRetryStatusCodes\<close>, accumulating \<open>retryFlag\<close>.\<close>

definition checkRetryRequired :: "int \<Rightarrow> bool" where
  "checkRetryRequired statusCode =
    foldl (\<lambda>retryFlag retryCode. retryFlag \<or> retryCode = statusCode) False
      defaultRetryStatusCodes"


subsection \<open>sendRequest\<close>

text \<open>
  \<open>sendRequest\<close> returns \<open>(status, body, headers, error)\<close>. After a successful \<open>Do\<close> the
  variable \<open>err\<close> is nil; when reading the body fails, the source formats its message
  with \<open>err.Error()\<close>, not with \<open>readError.Error()\<close>. Calling a method on the nil error
  panics.
\<close>

definition Error_method :: "transport_error option \<Rightarrow> string outcome" where
  "Error_method e = (case e of None \<Rightarrow> Panic | Some x \<Rightarrow> Returned (Error x))"

type_synonym request_result = "int \<times> bytes \<times> Header option \<times> go_error"

definition sendRequest ::
  "environment \<Rightarrow> nat \<Rightarrow> http_Client \<Rightarrow> Request \<Rightarrow> request_result outcome"
where
  "sendRequest env n newHandler newRequest =
    (case Do env n newHandler newRequest of
       DoError e \<Rightarrow>
         if IsTimeout e
         then Returned (StatusRequestTimeout, None, None,
                        Some (''timeout encountered. error: '' @ Error e))
         else Returned (0, None, None, Some (''failed to send request. Error: '' @ Error e))
     | DoResponse resp \<Rightarrow>
         (let err = (None :: transport_error option);
              body = BodyContent resp;
              readError = BodyReadError resp
          in if readError \<noteq> None
             then (case Error_method err of
                     Panic \<Rightarrow> Panic
                   | Returned m \<Rightarrow>
                       Returned (StatusCode resp, None, None,
                                 Some (''failed to read response body. error: '' @ m)))
             else Returned (StatusCode resp, Some body, ResponseHeader resp, None)))"


subsection \<open>MakeRequest\<close>

text \<open>
  The variables of \<open>MakeRequest\<close> that the loop reads and writes, and the effects so far.
\<close>

record loop_state =
  requestCount :: go_int
  baseBackOffTime :: Duration
  statusCode :: int
  body :: bytes
  headers :: "Header option"
  err :: go_error
  effects :: "effect list"

text \<open>
  The retry loop \<open>for requestCount <= specs.RetryCount { ... }\<close>. The comparison is the
  signed one of Go. Every turn passes the same \<open>*http.Request\<close> to \<open>sendRequest\<close>: the
  next turn finds the request as the call of \<open>Do\<close> in this turn left it. Nothing bounds the
  loop but the counter, which wraps around, so the loop is a partial function: \<open>None\<close> is
  a loop that never ends.
\<close>

partial_function (option) retry_loop ::
  "environment \<Rightarrow> http_Client \<Rightarrow> Request \<Rightarrow> go_int \<Rightarrow> loop_state \<Rightarrow> loop_state outcome option"
where
  "retry_loop env newHandler newRequest retryCount st =
    (if word_sle (requestCount st) retryCount then
       (case sendRequest env (attempts (effects st)) newHandler newRequest of
          Panic \<Rightarrow> Some Panic
        | Returned (sc, b, h, e) \<Rightarrow>
            (let st1 = st\<lparr>statusCode := sc, body := b, headers := h, err := e,
                          effects := effects st @ [Sent newHandler newRequest]\<rparr>
             in if checkRetryRequired sc \<or> e \<noteq> None
                then retry_loop env newHandler
                       (after_Do env (attempts (effects st)) newHandler newRequest) retryCount
                       (st1\<lparr>effects := effects st1 @ [Slept (baseBackOffTime st1)],
                            baseBackOffTime := 2 * baseBackOffTime st1,
                            requestCount := requestCount st1 + 1\<rparr>)
                else Some (Returned st1)))
     else Some (Returned st))"

declare retry_loop.simps [code]

text \<open>
  What the caller has after a dispatch: the four returned values, and the handler and the
  specification it passed by pointer; \<open>trace\<close> lists the effects of the call.
\<close>

record dispatch =
  result :: request_result
  handler_after :: RequestHandler
  specs_after :: RequestSpecifications
  trace :: "effect list"

definition dispatch_of :: "RequestHandler \<Rightarrow> RequestSpecifications \<Rightarrow> loop_state \<Rightarrow> dispatch" where
  "dispatch_of r specs st =
    \<lparr>result = (statusCode st, body st, headers st, err st),
     handler_after = r, specs_after = specs, trace = effects st\<rparr>"

text \<open>
  \<open>MakeRequest\<close>: \<open>None\<close> when the call never returns, \<open>Some Panic\<close> when it panics,
  \<open>Some (Returned d)\<close> when it returns. A nil request is never passed on by the source
  after a nil error; \<open>Do\<close> on a nil request panics.
\<close>

definition MakeRequest ::
  "environment \<Rightarrow> RequestHandler \<Rightarrow> RequestSpecifications \<Rightarrow> dispatch outcome option"
where
  "MakeRequest env r specs =
    (let baseBackOffTime0 = 100 * Millisecond;
         requestCount0 = 1
     in case prepareRequest env r specs of
          ((newHandler, newRequest, e), r', specs') \<Rightarrow>
            if e \<noteq> None
            then Some (Returned \<lparr>result = (0, None, None, e), handler_after = r',
                                 specs_after = specs', trace = []\<rparr>)
            else (case newRequest of
                    None \<Rightarrow> Some Panic
                  | Some req \<Rightarrow>
                      map_option (map_outcome (dispatch_of r' specs'))
                        (retry_loop env newHandler req (RetryCount specs')
                           \<lparr>requestCount = requestCount0, baseBackOffTime = baseBackOffTime0,
                            statusCode = 0, body = None, headers = None, err = None,
                            effects = []\<rparr>)))"


section \<open>Notions for the statements and proofs\<close>

text \<open>
  The test of the loop body, \<open>checkRetryRequired(statusCode) || err != nil\<close>, on what an
  attempt gave back. An attempt that panics decides nothing.
\<close>

fun decides_retry :: "request_result outcome \<Rightarrow> bool" where
  "decides_retry Panic = False"
| "decides_retry (Returned (sc, b, h, e)) = (checkRetryRequired sc \<or> e \<noteq> None)"

text \<open>
  One turn of the loop body from state \<open>st\<close>, by branch. \<open>retry_step\<close>: the attempt
  returned \<open>res\<close> and the test holds, so the loop sleeps, doubles the backoff time and
  counts. \<open>stop_step\<close>: the test fails, and the loop leaves by \<open>break\<close>.
\<close>

definition retry_step :: "http_Client \<Rightarrow> Request \<Rightarrow> request_result \<Rightarrow> loop_state \<Rightarrow> loop_state" where
  "retry_step c q res st =
    (case res of (sc, b, h, e) \<Rightarrow>
       st\<lparr>statusCode := sc, body := b, headers := h, err := e,
          effects := effects st @ [Sent c q, Slept (baseBackOffTime st)],
          baseBackOffTime := 2 * baseBackOffTime st,
          requestCount := requestCount st + 1\<rparr>)"

definition stop_step :: "http_Client \<Rightarrow> Request \<Rightarrow> request_result \<Rightarrow> loop_state \<Rightarrow> loop_state" where
  "stop_step c q res st =
    (case res of (sc, b, h, e) \<Rightarrow>
       st\<lparr>statusCode := sc, body := b, headers := h, err := e,
          effects := effects st @ [Sent c q]\<rparr>)"

text \<open>
  The four named results of \<open>MakeRequest\<close> as they stand in a state of the loop.
\<close>

definition current :: "loop_state \<Rightarrow> request_result" where
  "current st = (statusCode st, body st, headers st, err st)"

text \<open>
  The request as the \<open>j\<close>-th attempt of a dispatch (from 0) finds it, when \<open>q\<close> is the
  request that \<open>prepareRequest\<close> built: every earlier attempt has taken from its body
  what it read. A request without a body is the same at every attempt.
\<close>

fun request_at :: "environment \<Rightarrow> http_Client \<Rightarrow> Request \<Rightarrow> nat \<Rightarrow> Request" where
  "request_at env c q 0 = q"
| "request_at env c q (Suc j) = after_Do env j c (request_at env c q j)"

text \<open>
  What the \<open>j\<close>-th attempt of such a dispatch gives back.
\<close>

definition attempt :: "environment \<Rightarrow> http_Client \<Rightarrow> Request \<Rightarrow> nat \<Rightarrow> request_result outcome" where
  "attempt env c q j = sendRequest env j c (request_at env c q j)"

text \<open>
  The effects of \<open>n\<close> attempts of which the first \<open>m\<close> were followed by a sleep: the
  \<open>j\<close>-th attempt (from 0) sends the request \<open>qs j\<close>, and the \<open>j\<close>-th sleep lasts
  \<open>b * 2 ^ j\<close>, in 64-bit arithmetic.
\<close>

definition backoff_trace ::
  "http_Client \<Rightarrow> (nat \<Rightarrow> Request) \<Rightarrow> Duration \<Rightarrow> nat \<Rightarrow> nat \<Rightarrow> effect list"
where
  "backoff_trace c qs b m n =
     concat (map (\<lambda>j. Sent c (qs j) # (if j < m then [Slept (b * 2 ^ j)] else [])) [0..<n])"

text \<open>
  What a run of the loop from \<open>st\<close> to \<open>st'\<close> has done, in a dispatch whose request was
  built as \<open>q0\<close>: \<open>n\<close> attempts, a sleep after each of the first \<open>m\<close>, each of those
  attempts having decided to retry; the results are those of the last attempt; and
  either every attempt was followed by a sleep (the counter passed the bound) or the last
  one was not and decided to stop.
\<close>

definition loop_post ::
  "environment \<Rightarrow> http_Client \<Rightarrow> Request \<Rightarrow> loop_state \<Rightarrow> loop_state \<Rightarrow> bool"
where
  "loop_post env c q0 st st' \<longleftrightarrow>
     (\<exists>n m. effects st'
               = effects st @ backoff_trace c (\<lambda>j. request_at env c q0 (attempts (effects st) + j))
                                (baseBackOffTime st) m n
        \<and> (\<forall>j<m. decides_retry (attempt env c q0 (attempts (effects st) + j)))
        \<and> (n = 0 \<longrightarrow> st' = st)
        \<and> (0 < n \<longrightarrow> attempt env c q0 (attempts (effects st) + n - 1) = Returned (current st'))
        \<and> (m = n \<or> (n = Suc m \<and> \<not> decides_retry (Returned (current st')))))"

text \<open>
  The state in which \<open>MakeRequest\<close> enters the loop.
\<close>

definition start :: loop_state where
  "start = \<lparr>requestCount = 1, baseBackOffTime = 100 * Millisecond, statusCode = 0,
            body = None, headers = None, err = None, effects = []\<rparr>"


section \<open>Example inputs\<close>

text \<open>
  An environment for the examples: \<open>http.NewRequest\<close> refuses the method \<open>*?\<close>, which is
  not a token, with the error text of the standard library (the method in double quotes,
  the character \<open>0x22\<close>), and builds a request without headers or body from any
  other method; the \<open>n\<close>-th call of \<open>Do\<close> gives \<open>answers n\<close> and reads the body of the
  request to its end.
\<close>

definition example_request :: "string \<Rightarrow> string \<Rightarrow> Request" where
  "example_request m u = \<lparr>Method = m, RequestURL = u, RequestHeader = [], RequestBody = None\<rparr>"

definition example_NewRequest :: "string \<Rightarrow> string \<Rightarrow> string + Request" where
  "example_NewRequest m u =
     (if m = ''*?'' then Inl (''net/http: invalid method '' @ [CHR 0x22] @ m @ [CHR 0x22])
      else Inr (example_request m u))"

definition example_env :: "(nat \<Rightarrow> do_result) \<Rightarrow> environment" where
  "example_env answers =
     \<lparr>NewRequest = example_NewRequest, Do = (\<lambda>n c q. answers n),
      Consumed = (\<lambda>n c q. length (string_of_bytes (RequestBody q)))\<rparr>"

text \<open>
  A response with the given status code whose body \<open>{}\<close> is read to the end, and one
  whose body breaks off while it is read.
\<close>

definition status_response :: "int \<Rightarrow> do_result" where
  "status_response sc =
     DoResponse \<lparr>StatusCode = sc, ResponseHeader = Some [], BodyContent = ''{}'',
                 BodyReadError = None\<rparr>"

definition broken_body_response :: "int \<Rightarrow> do_result" where
  "broken_body_response sc =
     DoResponse \<lparr>StatusCode = sc, ResponseHeader = Some [], BodyContent = ''{'',
                 BodyReadError = Some (TransportError ''unexpected EOF'' False)\<rparr>"

text \<open>
  A request for the accounts of the API with every optional field left at zero, and the
  request that \<open>http.NewRequest\<close> builds for it.
\<close>

definition example_specs :: RequestSpecifications where
  "example_specs = \<lparr>URL = ''http://localhost:8080/v1/organisation/accounts'',
                     HTTPMethod = ''GET'', Params = None, Timeout = 0, RetryCount = 0\<rparr>"

definition example_get :: Request where
  "example_get = example_request ''GET'' ''http://localhost:8080/v1/organisation/accounts''"

text \<open>
  What the caller has after a dispatch of \<open>example_specs\<close> that was answered 503 three
  times.
\<close>

definition exhausted_dispatch :: dispatch where
  "exhausted_dispatch =
     \<lparr>result = (503, Some ''{}'', Some [], None),
      handler_after = NewRequestHandler None,
      specs_after = example_specs\<lparr>RetryCount := 3\<rparr>,
      trace = [Sent (HTTPClient (NewRequestHandler None)) example_get,
               Slept (100 * Millisecond),
               Sent (HTTPClient (NewRequestHandler None)) example_get,
               Slept (200 * Millisecond),
               Sent (HTTPClient (NewRequestHandler None)) example_get,
               Slept (400 * Millisecond)]\<rparr>"

text \<open>
  A POST of the three bytes \<open>abc\<close>, the request that \<open>prepareRequest\<close> makes of it with
  \<open>unread\<close> left in its body, and what the caller has after a dispatch of it that was
  answered 503 and then 200: the second attempt sends the request with nothing left in
  its body.
\<close>

definition example_post_specs :: RequestSpecifications where
  "example_post_specs = example_specs\<lparr>HTTPMethod := ''POST'', Params := Some ''abc''\<rparr>"

definition example_post :: "string \<Rightarrow> Request" where
  "example_post unread =
     \<lparr>Method = ''POST'', RequestURL = ''http://localhost:8080/v1/organisation/accounts'',
      RequestHeader = [(''Content-Type'', [''application/json''])],
      RequestBody = Some unread\<rparr>"

definition retried_post_dispatch :: dispatch where
  "retried_post_dispatch =
     \<lparr>result = (200, Some ''{}'', Some [], None),
      handler_after = NewRequestHandler None,
      specs_after = example_post_specs\<lparr>RetryCount := 3\<rparr>,
      trace = [Sent (HTTPClient (NewRequestHandler None)) (example_post ''abc''),
               Slept (100 * Millisecond),
               Sent (HTTPClient (NewRequestHandler None)) (example_post [])]\<rparr>"





section \<open>Properties\<close>

subsection \<open>The error classifier\<close>

lemmas status_defs =
  StatusBadRequest_def StatusUnauthorized_def StatusForbidden_def StatusNotFound_def
  StatusMethodNotAllowed_def StatusNotAcceptable_def StatusRequestTimeout_def
  StatusConflict_def StatusTooManyRequests_def StatusInternalServerError_def
  StatusBadGateway_def StatusServiceUnavailable_def StatusGatewayTimeout_def

lemma ErrorMap_dom:
  "dom ErrorMap = {400::int, 401, 403, 404, 405, 406, 409, 429, 500, 502, 503, 504}"
  unfolding ErrorMap_def ErrorMap_entries_def status_defs
  by (simp add: dom_map_of_conv_image_fst)

lemma ErrorMap_outside:
  "sc \<notin> {400::int, 401, 403, 404, 405, 406, 409, 429, 500, 502, 503, 504}
    \<Longrightarrow> ErrorMap sc = None"
  using ErrorMap_dom by blast

text \<open>
  Claim C7. For a status code of the table (400, 401, 403, 404, 405, 406, 409, 429, 500,
  502, 503, 504) \<open>HandleErrorStatusCode\<close> returns a non-nil error whose message is the
  mapped category, a colon, a space and the body as text; for every other status code
  (0 and 510 among them) the message is \<open>internal error: \<close> followed by the body as
  text. The function is total and pure: it always returns an error value.
\<close>

theorem HandleErrorStatusCode_message:
  "(\<forall>(code, category) \<in> set
       [(400, ''bad request''), (401, ''unauthorized''), (403, ''forbidden''),
        (404, ''resource not found''), (405, ''incorrect http method''),
        (406, ''incorrect content type''), (409, ''request conflict''),
        (429, ''too many requests''), (500, ''internal server error''),
        (502, ''bad gateway''), (503, ''service unavailable''),
        (504, ''gateway timeout'')].
      HandleErrorStatusCode code response
        = Some (category @ '': '' @ string_of_bytes response))
   \<and> (sc \<notin> {400::int, 401, 403, 404, 405, 406, 409, 429, 500, 502, 503, 504}
        \<longrightarrow> HandleErrorStatusCode sc response
              = Some (''internal error: '' @ string_of_bytes response))
   \<and> HandleErrorStatusCode sc response \<noteq> None"
proof (intro conjI)
  show "\<forall>(code, category) \<in> set
       [(400, ''bad request''), (401, ''unauthorized''), (403, ''forbidden''),
        (404, ''resource not found''), (405, ''incorrect http method''),
        (406, ''incorrect content type''), (409, ''request conflict''),
        (429, ''too many requests''), (500, ''internal server error''),
        (502, ''bad gateway''), (503, ''service unavailable''),
        (504, ''gateway timeout'')].
      HandleErrorStatusCode code response
        = Some (category @ '': '' @ string_of_bytes response)"
    by (simp add: HandleErrorStatusCode_def ErrorMap_def ErrorMap_entries_def status_defs)
  show "sc \<notin> {400::int, 401, 403, 404, 405, 406, 409, 429, 500, 502, 503, 504}
        \<longrightarrow> HandleErrorStatusCode sc response
              = Some (''internal error: '' @ string_of_bytes response)"
    using ErrorMap_outside [of sc] by (simp add: HandleErrorStatusCode_def)
  show "HandleErrorStatusCode sc response \<noteq> None"
    by (simp add: HandleErrorStatusCode_def split: option.split)
qed

theorem HandleErrorStatusCode_message_witness:
  "HandleErrorStatusCode 404 (Some ''{}'') = Some ''resource not found: {}''
   \<and> HandleErrorStatusCode 510 (Some ''{}'') = Some ''internal error: {}''
   \<and> HandleErrorStatusCode 0 None = Some ''internal error: ''"
  using HandleErrorStatusCode_message [of "Some ''{}''" 510]
        HandleErrorStatusCode_message [of None 0]
  by (simp add: string_of_bytes_def)


subsection \<open>The counter\<close>

text \<open>
  \<open>requestCount++\<close> adds one as long as the counter is below the largest \<open>int\<close>.
\<close>

lemma sint_succ: "sint (x::64 word) < 2^63 - 1 \<Longrightarrow> sint (x + 1) = sint x + 1"
proof -
  assume a: "sint x < 2^63 - 1"
  have lo: "- (2 ^ 63) \<le> sint x" using sint_ge [of x] by simp
  have "sint (x + 1) = signed_take_bit 63 (sint x + 1)"
    by (simp add: sint_word_add)
  also have "\<dots> = sint x + 1"
    using a lo by (intro signed_take_bit_int_eq_self) simp_all
  finally show ?thesis .
qed


subsection \<open>The retry loop, one turn at a time\<close>

text \<open>
  The four ways through one turn of the loop: the condition fails; the attempt panics;
  the attempt calls for no retry; the attempt calls for a retry.
\<close>

lemma retry_loop_exit:
  "\<not> word_sle (requestCount st) rc \<Longrightarrow> retry_loop env c q rc st = Some (Returned st)"
  by (subst retry_loop.simps) simp

lemma retry_loop_panic:
  "word_sle (requestCount st) rc \<Longrightarrow> sendRequest env (attempts (effects st)) c q = Panic
    \<Longrightarrow> retry_loop env c q rc st = Some Panic"
  by (subst retry_loop.simps) simp

lemma retry_loop_stop:
  "word_sle (requestCount st) rc \<Longrightarrow> sendRequest env (attempts (effects st)) c q = Returned res
    \<Longrightarrow> \<not> decides_retry (Returned res)
    \<Longrightarrow> retry_loop env c q rc st = Some (Returned (stop_step c q res st))"
  by (subst retry_loop.simps) (cases res, simp add: Let_def stop_step_def)

lemma retry_loop_retry:
  "word_sle (requestCount st) rc \<Longrightarrow> sendRequest env (attempts (effects st)) c q = Returned res
    \<Longrightarrow> decides_retry (Returned res)
    \<Longrightarrow> retry_loop env c q rc st
          = retry_loop env c (after_Do env (attempts (effects st)) c q) rc
              (retry_step c q res st)"
  by (subst retry_loop.simps) (cases res, auto simp add: Let_def retry_step_def)

text \<open>
  The projections of a trace distribute over concatenation.
\<close>

lemma attempts_append: "attempts (xs @ ys) = attempts xs + attempts ys"
  by (induction xs rule: attempts.induct) simp_all

lemma sleeps_append: "sleeps (xs @ ys) = sleeps xs @ sleeps ys"
  by (induction xs rule: sleeps.induct) simp_all


lemma retry_step_fields:
  "requestCount (retry_step c q res st) = requestCount st + 1"
  "baseBackOffTime (retry_step c q res st) = 2 * baseBackOffTime st"
  "effects (retry_step c q res st) = effects st @ [Sent c q, Slept (baseBackOffTime st)]"
  "current (retry_step c q res st) = res"
  by (cases res; simp add: retry_step_def current_def)+

lemma stop_step_fields:
  "requestCount (stop_step c q res st) = requestCount st"
  "baseBackOffTime (stop_step c q res st) = baseBackOffTime st"
  "effects (stop_step c q res st) = effects st @ [Sent c q]"
  "current (stop_step c q res st) = res"
  by (cases res; simp add: stop_step_def current_def)+


subsection \<open>Runs that return\<close>

text \<open>
  A turn whose attempt calls for a retry hands the request, as the attempt left it, to
  the next turn.
\<close>

lemma retry_loop_next:
  assumes le: "word_sle (requestCount st) rc"
    and d0: "decides_retry (attempt env c q0 (attempts (effects st)))"
  shows "\<exists>r0. sendRequest env (attempts (effects st)) c
                (request_at env c q0 (attempts (effects st))) = Returned r0
           \<and> decides_retry (Returned r0)
           \<and> attempts (effects (retry_step c (request_at env c q0 (attempts (effects st)))
                                    r0 st)) = Suc (attempts (effects st))
           \<and> retry_loop env c (request_at env c q0 (attempts (effects st))) rc st
               = retry_loop env c (request_at env c q0 (Suc (attempts (effects st)))) rc
                   (retry_step c (request_at env c q0 (attempts (effects st))) r0 st)"
proof -
  let ?a = "attempts (effects st)"
  let ?q = "request_at env c q0 ?a"
  from d0 obtain r0 where r0: "sendRequest env ?a c ?q = Returned r0"
    by (cases "sendRequest env ?a c ?q") (auto simp add: attempt_def)
  have d: "decides_retry (Returned r0)" using d0 r0 by (simp add: attempt_def)
  have att: "attempts (effects (retry_step c ?q r0 st)) = Suc ?a"
    by (simp add: retry_step_fields attempts_append)
  have "retry_loop env c ?q rc st
        = retry_loop env c (request_at env c q0 (Suc ?a)) rc (retry_step c ?q r0 st)"
    using retry_loop_retry [OF le r0 d] by simp
  with r0 d att show ?thesis by blast
qed

text \<open>
  When the next \<open>k\<close> attempts call for a retry, the counter allows one more attempt and
  that attempt calls for none, the loop returns its result after \<open>k + 1\<close> attempts.
\<close>

lemma loop_stops_after:
  assumes "\<forall>j<k. decides_retry (attempt env c q0 (attempts (effects st) + j))"
    and "sint (requestCount st) + int k \<le> sint rc"
    and "attempt env c q0 (attempts (effects st) + k) = Returned res"
    and "\<not> decides_retry (Returned res)"
  shows "\<exists>st'. retry_loop env c (request_at env c q0 (attempts (effects st))) rc st
                = Some (Returned st')
           \<and> current st' = res
           \<and> attempts (effects st') = attempts (effects st) + k + 1"
  using assms
proof (induction k arbitrary: st)
  case 0
  then have le: "word_sle (requestCount st) rc" by (simp add: word_sle_eq)
  have send: "sendRequest env (attempts (effects st)) c
                (request_at env c q0 (attempts (effects st))) = Returned res"
    using 0(3) by (simp add: attempt_def)
  from retry_loop_stop [OF le send 0(4)] show ?case
    by (simp add: stop_step_fields attempts_append)
next
  case (Suc k)
  let ?a = "attempts (effects st)"
  let ?q = "request_at env c q0 ?a"
  have le: "word_sle (requestCount st) rc" using Suc.prems(2) by (simp add: word_sle_eq)
  have d0: "decides_retry (attempt env c q0 ?a)"
    using Suc.prems(1) by (metis add.right_neutral zero_less_Suc)
  from retry_loop_next [OF le d0] obtain r0
    where att: "attempts (effects (retry_step c ?q r0 st)) = Suc ?a"
      and step: "retry_loop env c ?q rc st
                 = retry_loop env c (request_at env c q0 (Suc ?a)) rc (retry_step c ?q r0 st)"
    by blast
  let ?st = "retry_step c ?q r0 st"
  have lt: "sint (requestCount st) < 2 ^ 63 - 1"
    using Suc.prems(2) sint_lt [of rc] by simp
  have rc': "sint (requestCount ?st) = sint (requestCount st) + 1"
    by (simp add: retry_step_fields sint_succ [OF lt])
  have "\<exists>st'. retry_loop env c (request_at env c q0 (attempts (effects ?st))) rc ?st
                = Some (Returned st')
           \<and> current st' = res
           \<and> attempts (effects st') = attempts (effects ?st) + k + 1"
  proof (rule Suc.IH)
    show "\<forall>j<k. decides_retry (attempt env c q0 (attempts (effects ?st) + j))"
      using Suc.prems(1) att by (metis Suc_less_eq add_Suc_shift)
    show "sint (requestCount ?st) + int k \<le> sint rc" using rc' Suc.prems(2) by simp
    show "attempt env c q0 (attempts (effects ?st) + k) = Returned res"
      using Suc.prems(3) att by simp
    show "\<not> decides_retry (Returned res)" by (rule Suc.prems(4))
  qed
  then show ?case using step att by auto
qed

text \<open>
  When the next \<open>k\<close> attempts call for a retry and \<open>k\<close> is what the counter allows, the
  loop returns after \<open>k\<close> attempts with the result of the last one.
\<close>

lemma loop_exhausts:
  assumes "\<forall>j<k. decides_retry (attempt env c q0 (attempts (effects st) + j))"
    and "sint (requestCount st) + int k = sint rc + 1"
    and "sint rc < 2 ^ 63 - 1"
  shows "\<exists>st'. retry_loop env c (request_at env c q0 (attempts (effects st))) rc st
                = Some (Returned st')
           \<and> attempts (effects st') = attempts (effects st) + k
           \<and> (k = 0 \<longrightarrow> st' = st)
           \<and> (0 < k \<longrightarrow> attempt env c q0 (attempts (effects st) + k - 1)
                              = Returned (current st'))"
  using assms
proof (induction k arbitrary: st)
  case 0
  then have "\<not> word_sle (requestCount st) rc" by (simp add: word_sle_eq)
  then show ?case by (simp add: retry_loop_exit)
next
  case (Suc k)
  let ?a = "attempts (effects st)"
  let ?q = "request_at env c q0 ?a"
  have le: "word_sle (requestCount st) rc" using Suc.prems(2) by (simp add: word_sle_eq)
  have d0: "decides_retry (attempt env c q0 ?a)"
    using Suc.prems(1) by (metis add.right_neutral zero_less_Suc)
  from retry_loop_next [OF le d0] obtain r0
    where r0: "sendRequest env ?a c ?q = Returned r0"
      and att: "attempts (effects (retry_step c ?q r0 st)) = Suc ?a"
      and step: "retry_loop env c ?q rc st
                 = retry_loop env c (request_at env c q0 (Suc ?a)) rc (retry_step c ?q r0 st)"
    by blast
  let ?st = "retry_step c ?q r0 st"
  have lt: "sint (requestCount st) < 2 ^ 63 - 1"
    using Suc.prems(2,3) by simp
  have rc': "sint (requestCount ?st) = sint (requestCount st) + 1"
    by (simp add: retry_step_fields sint_succ [OF lt])
  have "\<exists>st'. retry_loop env c (request_at env c q0 (attempts (effects ?st))) rc ?st
                = Some (Returned st')
           \<and> attempts (effects st') = attempts (effects ?st) + k
           \<and> (k = 0 \<longrightarrow> st' = ?st)
           \<and> (0 < k \<longrightarrow> attempt env c q0 (attempts (effects ?st) + k - 1)
                              = Returned (current st'))"
  proof (rule Suc.IH)
    show "\<forall>j<k. decides_retry (attempt env c q0 (attempts (effects ?st) + j))"
      using Suc.prems(1) att by (metis Suc_less_eq add_Suc_shift)
    show "sint (requestCount ?st) + int k = sint rc + 1" using rc' Suc.prems(2) by simp
    show "sint rc < 2 ^ 63 - 1" by (rule Suc.prems(3))
  qed
  then obtain st' where st':
      "retry_loop env c (request_at env c q0 (attempts (effects ?st))) rc ?st
       = Some (Returned st')"
      "attempts (effects st') = attempts (effects ?st) + k"
      "k = 0 \<longrightarrow> st' = ?st"
      "0 < k \<longrightarrow> attempt env c q0 (attempts (effects ?st) + k - 1) = Returned (current st')"
    by blast
  have last: "attempt env c q0 (?a + Suc k - 1) = Returned (current st')"
  proof (cases k)
    case 0
    then show ?thesis using st'(3) r0 by (simp add: retry_step_fields attempt_def)
  next
    case (Suc k')
    then show ?thesis using st'(4) att by simp
  qed
  show ?case using step st'(1,2) att last by auto
qed


subsection \<open>A run that never returns\<close>

text \<open>
  With the largest \<open>int\<close> as retry count the condition of the loop cannot fail; when
  every attempt calls for a retry, no turn leaves the loop.
\<close>

lemma sint_max: "sint (x :: 64 word) \<le> 2 ^ 63 - 1"
  using sint_lt [of x] by simp

lemma retry_loop_never_ends:
  assumes all: "\<forall>n q. decides_retry (sendRequest env n c q)"
    and top: "sint rc = 2 ^ 63 - 1"
  shows "retry_loop env c q rc st = None"
proof (rule ccontr)
  assume "retry_loop env c q rc st \<noteq> None"
  then obtain y where run: "retry_loop env c q rc st = Some y" by blast
  have "(\<forall>n q. decides_retry (sendRequest env n c q)) \<and> sint rc = 2 ^ 63 - 1 \<longrightarrow> False"
  proof (rule retry_loop.raw_induct
      [where P = "\<lambda>env c q rc st y.
                    (\<forall>n q. decides_retry (sendRequest env n c q)) \<and> sint rc = 2 ^ 63 - 1
                      \<longrightarrow> False",
       OF _ run], goal_cases)
    case (1 f env c q rc st y)
    show ?case
    proof
      assume a: "(\<forall>n q. decides_retry (sendRequest env n c q)) \<and> sint rc = 2 ^ 63 - 1"
      then have le: "word_sle (requestCount st) rc"
        using sint_max [of "requestCount st"] by (simp add: word_sle_eq)
      from a have d0: "decides_retry (sendRequest env (attempts (effects st)) c q)" by blast
      then obtain res where res: "sendRequest env (attempts (effects st)) c q = Returned res"
        by (cases "sendRequest env (attempts (effects st)) c q") auto
      with 1(2) le d0
      have "f env c (after_Do env (attempts (effects st)) c q) rc (retry_step c q res st)
            = Some y"
        by (cases res) (auto simp add: Let_def retry_step_def)
      from 1(1) [OF this] a show False by blast
    qed
  qed
  with all top show False by blast
qed


subsection \<open>The shape of every returned run\<close>

text \<open>
  Unfolding \<open>backoff_trace\<close> at the front.
\<close>

lemma backoff_trace_0: "backoff_trace c qs b m 0 = []"
  by (simp add: backoff_trace_def)

lemma backoff_trace_Suc:
  "backoff_trace c qs b (Suc m) (Suc n)
   = Sent c (qs 0) # Slept b # backoff_trace c (\<lambda>j. qs (Suc j)) (2 * b) m n"
proof -
  have "map (\<lambda>j. Sent c (qs j) # (if j < Suc m then [Slept (b * 2 ^ j)] else [])) [0..<Suc n]
        = (Sent c (qs 0) # [Slept b])
          # map (\<lambda>j. Sent c (qs (Suc j)) # (if j < m then [Slept (2 * b * 2 ^ j)] else []))
              [0..<n]"
    by (simp add: upt_conv_Cons map_Suc_upt [symmetric] del: upt_Suc)
  then show ?thesis by (simp add: backoff_trace_def)
qed

lemma backoff_trace_one: "backoff_trace c qs b 0 (Suc 0) = [Sent c (qs 0)]"
  by (simp add: backoff_trace_def)

text \<open>
  \<open>loop_post\<close> holds of the turns that leave the loop and is carried backwards over a
  turn that retries; so it holds of every run that returns, by induction over the
  computation of the loop.
\<close>

lemma loop_post_exit: "loop_post env c q0 st st"
  unfolding loop_post_def
  by (rule exI [of _ 0], rule exI [of _ 0]) (simp add: backoff_trace_0)

lemma loop_post_stop:
  assumes "attempt env c q0 (attempts (effects st)) = Returned res"
    and "\<not> decides_retry (Returned res)"
  shows "loop_post env c q0 st (stop_step c (request_at env c q0 (attempts (effects st))) res st)"
  unfolding loop_post_def
  by (rule exI [of _ "Suc 0"], rule exI [of _ 0])
     (use assms in \<open>simp add: backoff_trace_one stop_step_fields\<close>)

lemma loop_post_retry:
  assumes r0: "attempt env c q0 (attempts (effects st)) = Returned res"
    and d0: "decides_retry (Returned res)"
    and post: "loop_post env c q0
                 (retry_step c (request_at env c q0 (attempts (effects st))) res st) st'"
  shows "loop_post env c q0 st st'"
proof -
  let ?a = "attempts (effects st)"
  let ?st = "retry_step c (request_at env c q0 ?a) res st"
  have att: "attempts (effects ?st) = Suc ?a"
    by (simp add: retry_step_fields attempts_append)
  from post obtain n m where
    eff: "effects st' = effects ?st
            @ backoff_trace c (\<lambda>j. request_at env c q0 (attempts (effects ?st) + j))
                (baseBackOffTime ?st) m n"
    and dec: "\<forall>j<m. decides_retry (attempt env c q0 (attempts (effects ?st) + j))"
    and zero: "n = 0 \<longrightarrow> st' = ?st"
    and pos: "0 < n \<longrightarrow> attempt env c q0 (attempts (effects ?st) + n - 1)
                          = Returned (current st')"
    and mn: "m = n \<or> (n = Suc m \<and> \<not> decides_retry (Returned (current st')))"
    unfolding loop_post_def by blast
  have 1: "effects st' = effects st
             @ backoff_trace c (\<lambda>j. request_at env c q0 (?a + j)) (baseBackOffTime st)
                 (Suc m) (Suc n)"
    using eff att by (simp add: retry_step_fields backoff_trace_Suc)
  have 2: "\<forall>j<Suc m. decides_retry (attempt env c q0 (?a + j))"
  proof (intro allI impI)
    fix j assume "j < Suc m"
    show "decides_retry (attempt env c q0 (?a + j))"
    proof (cases j)
      case 0
      then show ?thesis using r0 d0 by simp
    next
      case (Suc i)
      with \<open>j < Suc m\<close> have "i < m" by simp
      with dec att Suc show ?thesis by simp
    qed
  qed
  have 3: "attempt env c q0 (?a + Suc n - 1) = Returned (current st')"
  proof (cases n)
    case 0
    then show ?thesis using zero r0 by (simp add: retry_step_fields)
  next
    case (Suc n')
    then show ?thesis using pos att by simp
  qed
  have 4: "Suc m = Suc n \<or> (Suc n = Suc (Suc m) \<and> \<not> decides_retry (Returned (current st')))"
    using mn by auto
  show ?thesis
    unfolding loop_post_def
    by (rule exI [of _ "Suc n"], rule exI [of _ "Suc m"]) (use 1 2 3 4 in simp)
qed

lemma loop_trace_aux:
  assumes run: "retry_loop env c q rc st = Some y"
  shows "\<forall>q0 st'. q = request_at env c q0 (attempts (effects st)) \<and> y = Returned st'
           \<longrightarrow> loop_post env c q0 st st'"
proof (rule retry_loop.raw_induct
    [where P = "\<lambda>env c q rc st y.
                  \<forall>q0 st'. q = request_at env c q0 (attempts (effects st)) \<and> y = Returned st'
                    \<longrightarrow> loop_post env c q0 st st'",
     OF _ run], goal_cases)
  case (1 f env c q rc st y)
  show ?case
  proof (intro allI impI, elim conjE)
    fix q0 st'
    assume q: "q = request_at env c q0 (attempts (effects st))" and y: "y = Returned st'"
    show "loop_post env c q0 st st'"
    proof (cases "word_sle (requestCount st) rc")
      case False
      with 1(2) y have "st' = st" by simp
      then show ?thesis by (simp add: loop_post_exit)
    next
      case le: True
      show ?thesis
      proof (cases "sendRequest env (attempts (effects st)) c q")
        case Panic
        with 1(2) le y show ?thesis by simp
      next
        case (Returned res)
        then have a: "attempt env c q0 (attempts (effects st)) = Returned res"
          using q by (simp add: attempt_def)
        show ?thesis
        proof (cases "decides_retry (Returned res)")
          case True
          let ?st = "retry_step c q res st"
          from True 1(2) le Returned
          have rec: "f env c (after_Do env (attempts (effects st)) c q) rc ?st = Some y"
            by (cases res) (auto simp add: Let_def retry_step_def)
          have q': "after_Do env (attempts (effects st)) c q
                    = request_at env c q0 (attempts (effects ?st))"
            using q by (simp add: retry_step_fields attempts_append)
          have "\<forall>q0 st'. after_Do env (attempts (effects st)) c q
                            = request_at env c q0 (attempts (effects ?st))
                          \<and> y = Returned st'
                   \<longrightarrow> loop_post env c q0 ?st st'"
            by (rule 1(1) [OF rec])
          with q' y have "loop_post env c q0 ?st st'" by blast
          then have "loop_post env c q0
                       (retry_step c (request_at env c q0 (attempts (effects st))) res st) st'"
            using q by simp
          from loop_post_retry [OF a True this] show ?thesis .
        next
          case False
          with 1(2) le Returned y have "st' = stop_step c q res st"
            by (cases res) (auto simp add: Let_def stop_step_def)
          then show ?thesis using loop_post_stop [OF a False] q by simp
        qed
      qed
    qed
  qed
qed

lemma loop_trace:
  "retry_loop env c (request_at env c q0 (attempts (effects st))) rc st = Some (Returned st')
    \<Longrightarrow> loop_post env c q0 st st'"
  using loop_trace_aux by blast

text \<open>
  Attempts, sleeps and client timeouts of a \<open>backoff_trace\<close>.
\<close>

lemma attempts_backoff_trace: "attempts (backoff_trace c qs b m n) = n"
  by (induction n) (simp_all add: backoff_trace_def attempts_append)

lemma sleeps_backoff_trace:
  "sleeps (backoff_trace c qs b m n) = map (\<lambda>j. b * 2 ^ j) [0..<min m n]"
proof (induction n)
  case 0
  then show ?case by (simp add: backoff_trace_def)
next
  case (Suc n)
  have "backoff_trace c qs b m (Suc n)
        = backoff_trace c qs b m n @ Sent c (qs n) # (if n < m then [Slept (b * 2 ^ n)] else [])"
    by (simp add: backoff_trace_def)
  moreover have "n < m \<Longrightarrow> min m n = n \<and> min m (Suc n) = Suc n" by simp
  moreover have "\<not> n < m \<Longrightarrow> min m (Suc n) = min m n" by simp
  ultimately show ?case using Suc
    by (cases "n < m") (simp_all add: sleeps_append)
qed



subsection \<open>prepareRequest and MakeRequest\<close>

text \<open>
  Selectors of the initial state and of the returned values.
\<close>

lemma start_fields:
  "requestCount start = 1" "baseBackOffTime start = 100 * Millisecond"
  "effects start = []" "current start = (0, None, None, None)"
  by (simp_all add: start_def current_def)

lemma dispatch_of_fields:
  "result (dispatch_of r specs st) = current st"
  "handler_after (dispatch_of r specs st) = r"
  "specs_after (dispatch_of r specs st) = specs"
  "trace (dispatch_of r specs st) = effects st"
  by (simp_all add: dispatch_of_def current_def)

text \<open>
  The two outcomes of \<open>prepareRequest\<close>, and what a built request tells about the
  handler and the specification it leaves.
\<close>

lemma prepareRequest_Inl:
  "NewRequest env (HTTPMethod specs) (URL specs) = Inl e
    \<Longrightarrow> prepareRequest env r specs
          = ((HTTPClient r, None, Some (''unable to create http request. error: '' @ e)), r, specs)"
  by (simp add: prepareRequest_def)

lemma prepareRequest_Inr:
  assumes "NewRequest env (HTTPMethod specs) (URL specs) = Inr req"
  shows "\<exists>c q r' specs'. prepareRequest env r specs = ((c, Some q, None), r', specs')"
  using assms by (simp add: prepareRequest_def Let_def)

lemma prepareRequest_built:
  assumes "prepareRequest env r specs = ((c, Some q, None), r', specs')"
  shows "c = HTTPClient r'"
    and "specs' = (if RetryCount specs = 0 then specs\<lparr>RetryCount := defaultRetryCount\<rparr> else specs)"
    and "r' = (if Timeout specs \<noteq> 0
               then r\<lparr>HTTPClient := (HTTPClient r)\<lparr>ClientTimeout := Timeout specs * Second\<rparr>\<rparr>
               else r)"
    and "\<exists>req. NewRequest env (HTTPMethod specs) (URL specs) = Inr req"
  using assms
  by (auto simp add: prepareRequest_def Let_def split: sum.splits if_splits)

text \<open>
  \<open>MakeRequest\<close> after each outcome of \<open>prepareRequest\<close>.
\<close>

lemma MakeRequest_Inl:
  "NewRequest env (HTTPMethod specs) (URL specs) = Inl e
    \<Longrightarrow> MakeRequest env r specs
          = Some (Returned \<lparr>result = (0, None, None,
                                      Some (''unable to create http request. error: '' @ e)),
                            handler_after = r, specs_after = specs, trace = []\<rparr>)"
  by (simp add: MakeRequest_def prepareRequest_Inl)

lemma MakeRequest_built:
  "prepareRequest env r specs = ((c, Some q, None), r', specs')
    \<Longrightarrow> MakeRequest env r specs
          = map_option (map_outcome (dispatch_of r' specs'))
              (retry_loop env c (request_at env c q (attempts (effects start)))
                 (RetryCount specs') start)"
  by (simp add: MakeRequest_def start_def)

text \<open>
  The loop of \<open>checkRetryRequired\<close> is membership in the three retry codes.
\<close>

lemma checkRetryRequired_iff: "checkRetryRequired sc \<longleftrightarrow> sc \<in> {408, 503, 504}"
  by (auto simp add: checkRetryRequired_def defaultRetryStatusCodes_def status_defs)


subsection \<open>Read failure\<close>

text \<open>
  The definitions of the example inputs, for evaluation.
\<close>

lemmas example_defs = example_request_def example_NewRequest_def example_env_def
  status_response_def broken_body_response_def example_specs_def example_get_def

text \<open>
  Claim C1. When the send succeeds but reading the response body fails, a dispatch is
  expected to return the received status, an empty body, nil headers and a non-nil
  error, and never to panic. The code does not: after a successful \<open>Do\<close> the variable
  \<open>err\<close> is nil, and on a read failure \<open>sendRequest\<close> formats its message with
  \<open>err.Error()\<close> instead of \<open>readError.Error()\<close>. At a response with status 200 whose body
  breaks off, \<open>sendRequest\<close> panics, and with it \<open>MakeRequest\<close>.
\<close>

theorem read_failure_panics:
  "sendRequest (example_env (\<lambda>n. broken_body_response 200)) 0
       (HTTPClient (NewRequestHandler None)) example_get = Panic
   \<and> MakeRequest (example_env (\<lambda>n. broken_body_response 200)) (NewRequestHandler None)
       example_specs = Some Panic"
  by code_simp

text \<open>
  The same for every response whose body cannot be read.
\<close>

lemma sendRequest_read_failure:
  "Do env n c q = DoResponse resp \<Longrightarrow> BodyReadError resp \<noteq> None \<Longrightarrow> sendRequest env n c q = Panic"
  by (simp add: sendRequest_def Error_method_def)


subsection \<open>Build errors\<close>

text \<open>
  Claim C9. When \<open>http.NewRequest\<close> refuses the method or the URL, \<open>MakeRequest\<close> returns
  at once with a build error: status 0, nil body, nil headers and the non-nil error
  \<open>unable to create http request. error: ...\<close>; the trace is empty, so no request is sent
  and no sleep happens, and the handler and the specification are as they were (no
  retry is counted, and the retry count is not even defaulted).
\<close>

theorem build_error_is_immediate:
  "NewRequest env (HTTPMethod specs) (URL specs) = Inl e
    \<Longrightarrow> MakeRequest env r specs
          = Some (Returned \<lparr>result = (0, None, None,
                                      Some (''unable to create http request. error: '' @ e)),
                            handler_after = r, specs_after = specs, trace = []\<rparr>)"
  by (rule MakeRequest_Inl)

text \<open>
  The theorem at the method \<open>*?\<close>, which the example environment refuses.
\<close>

theorem build_error_is_immediate_witness:
  "MakeRequest (example_env (\<lambda>n. status_response 200)) (NewRequestHandler None)
       (example_specs\<lparr>HTTPMethod := ''*?''\<rparr>)
     = Some (Returned \<lparr>result = (0, None, None,
                 Some (''unable to create http request. error: net/http: invalid method ''
                       @ [CHR 0x22] @ ''*?'' @ [CHR 0x22])),
               handler_after = NewRequestHandler None,
               specs_after = example_specs\<lparr>HTTPMethod := ''*?''\<rparr>, trace = []\<rparr>)"
  using build_error_is_immediate
    [of "example_env (\<lambda>n. status_response 200)" "example_specs\<lparr>HTTPMethod := ''*?''\<rparr>"
        "''net/http: invalid method '' @ [CHR 0x22] @ ''*?'' @ [CHR 0x22]"
        "NewRequestHandler None"]
  by (simp add: example_defs)


subsection \<open>Negative retry counts\<close>

text \<open>
  Claim C10. For every specification whose request can be built and whose \<open>RetryCount\<close>
  is negative, \<open>MakeRequest\<close> returns status 0, nil body, nil headers and a nil error
  after zero attempts and zero sleeps: the trace is empty.
\<close>

theorem negative_retry_count_sends_nothing:
  assumes "NewRequest env (HTTPMethod specs) (URL specs) = Inr req"
    and "RetryCount specs <s 0"
  shows "\<exists>d. MakeRequest env r specs = Some (Returned d)
            \<and> result d = (0, None, None, None) \<and> trace d = []
            \<and> attempts (trace d) = 0 \<and> sleeps (trace d) = []"
proof -
  from prepareRequest_Inr [OF assms(1)] obtain c q r' specs'
    where prep: "prepareRequest env r specs = ((c, Some q, None), r', specs')" by blast
  have neg: "sint (RetryCount specs) < 0" using assms(2) by (simp add: word_sless_alt)
  then have "RetryCount specs \<noteq> 0" by auto
  then have "specs' = specs" using prepareRequest_built(2) [OF prep] by simp
  then have "\<not> word_sle (requestCount start) (RetryCount specs')"
    using neg by (simp add: word_sle_eq start_fields)
  then have "retry_loop env c q (RetryCount specs') start = Some (Returned start)"
    by (rule retry_loop_exit)
  then show ?thesis
    by (simp add: MakeRequest_built [OF prep] dispatch_of_fields start_fields)
qed

text \<open>
  The theorem at \<open>RetryCount = -1\<close>.
\<close>

theorem negative_retry_count_sends_nothing_witness:
  "\<exists>d. MakeRequest (example_env (\<lambda>n. status_response 200)) (NewRequestHandler None)
          (example_specs\<lparr>RetryCount := - 1\<rparr>) = Some (Returned d)
       \<and> result d = (0, None, None, None) \<and> trace d = []
       \<and> attempts (trace d) = 0 \<and> sleeps (trace d) = []"
proof -
  have 1: "NewRequest (example_env (\<lambda>n. status_response 200))
             (HTTPMethod (example_specs\<lparr>RetryCount := - 1\<rparr>))
             (URL (example_specs\<lparr>RetryCount := - 1\<rparr>)) = Inr example_get"
    by (simp add: example_defs)
  have 2: "RetryCount (example_specs\<lparr>RetryCount := - 1\<rparr>) <s 0"
    by (simp add: example_defs word_sless_alt)
  show ?thesis by (rule negative_retry_count_sends_nothing [OF 1 2])
qed


subsection \<open>Transport failures\<close>

text \<open>
  Claim C8, with the messages of the code. An attempt that fails in the transport with a
  timeout yields status 408 and the error \<open>timeout encountered. error: \<close> followed by the
  underlying message; any other failure of the transport yields status 0 and the error
  \<open>failed to send request. Error: \<close> followed by the underlying message. Body and headers
  are nil in both cases.
\<close>

theorem transport_failure_result:
  assumes "Do env n c q = DoError e"
  shows "sendRequest env n c q
         = Returned (if IsTimeout e
                     then (408, None, None, Some (''timeout encountered. error: '' @ Error e))
                     else (0, None, None, Some (''failed to send request. Error: '' @ Error e)))"
  using assms by (simp add: sendRequest_def status_defs)

text \<open>
  The theorem at a timeout and at a refused connection.
\<close>

theorem transport_failure_result_witness:
  "sendRequest (example_env (\<lambda>n. DoError (TransportError ''i/o timeout'' True))) 0
       (HTTPClient (NewRequestHandler None)) example_get
     = Returned (408, None, None, Some ''timeout encountered. error: i/o timeout'')
   \<and> sendRequest (example_env (\<lambda>n. DoError (TransportError ''connection refused'' False))) 0
       (HTTPClient (NewRequestHandler None)) example_get
     = Returned (0, None, None, Some ''failed to send request. Error: connection refused'')"
  using transport_failure_result
     [of "example_env (\<lambda>n. DoError (TransportError ''i/o timeout'' True))" 0
         "HTTPClient (NewRequestHandler None)" example_get "TransportError ''i/o timeout'' True"]
    transport_failure_result
     [of "example_env (\<lambda>n. DoError (TransportError ''connection refused'' False))" 0
         "HTTPClient (NewRequestHandler None)" example_get
         "TransportError ''connection refused'' False"]
  by (simp add: example_env_def)

text \<open>
  The messages \<open>timeout encountered: ...\<close> and \<open>failed to send request: ...\<close> are not the
  ones returned for these two failures.
\<close>

theorem transport_failure_message_counterexample:
  "sendRequest (example_env (\<lambda>n. DoError (TransportError ''i/o timeout'' True))) 0
       (HTTPClient (NewRequestHandler None)) example_get
     \<noteq> Returned (408, None, None, Some ''timeout encountered: i/o timeout'')
   \<and> sendRequest (example_env (\<lambda>n. DoError (TransportError ''connection refused'' False))) 0
       (HTTPClient (NewRequestHandler None)) example_get
     \<noteq> Returned (0, None, None, Some ''failed to send request: connection refused'')"
  by (simp add: sendRequest_def example_env_def status_defs)


subsection \<open>The specification after a dispatch\<close>

text \<open>
  A dispatch that returns after its request was built returns the final state of a run
  of the loop, with the handler and the specification as \<open>prepareRequest\<close> left them.
\<close>

lemma MakeRequest_returned_built:
  assumes prep: "prepareRequest env r specs = ((c, Some q, None), r', specs')"
    and ret: "MakeRequest env r specs = Some (Returned d)"
  shows "\<exists>st'. d = dispatch_of r' specs' st' \<and> loop_post env c q start st'"
proof -
  from ret obtain y
    where y: "retry_loop env c (request_at env c q (attempts (effects start)))
                (RetryCount specs') start = Some y"
    and d: "map_outcome (dispatch_of r' specs') y = Returned d"
    by (auto simp add: MakeRequest_built [OF prep])
  from d obtain st' where st': "y = Returned st'" "d = dispatch_of r' specs' st'"
    by (cases y) auto
  from loop_trace [OF y [unfolded st'(1)]] st'(2) show ?thesis by blast
qed

text \<open>
  Claim C5, as far as the code keeps it. After \<open>MakeRequest\<close> returns, the caller's
  specification has every field at its value at the call, with one exception: when the
  request could be built and \<open>RetryCount\<close> was 0, \<open>RetryCount\<close> is now 3.
\<close>

theorem specification_after_dispatch:
  assumes "MakeRequest env r specs = Some (Returned d)"
  shows "specs_after d
         = (if isl (NewRequest env (HTTPMethod specs) (URL specs)) \<or> RetryCount specs \<noteq> 0
            then specs else specs\<lparr>RetryCount := 3\<rparr>)"
proof (cases "NewRequest env (HTTPMethod specs) (URL specs)")
  case (Inl e)
  with assms show ?thesis by (auto simp add: MakeRequest_Inl)
next
  case (Inr req)
  from prepareRequest_Inr [OF Inr] obtain c q r' specs'
    where prep: "prepareRequest env r specs = ((c, Some q, None), r', specs')" by blast
  from MakeRequest_returned_built [OF prep assms] have "specs_after d = specs'"
    by (auto simp add: dispatch_of_fields)
  then show ?thesis using prepareRequest_built(2) [OF prep] Inr
    by (simp add: defaultRetryCount_def)
qed

text \<open>
  The theorem at a dispatch answered 200, with \<open>RetryCount\<close> 0 and with \<open>RetryCount\<close> 2.
\<close>

theorem specification_after_dispatch_witness:
  "(\<exists>d. MakeRequest (example_env (\<lambda>n. status_response 200)) (NewRequestHandler None)
           example_specs = Some (Returned d)
        \<and> specs_after d = example_specs\<lparr>RetryCount := 3\<rparr>)
   \<and> (\<exists>d. MakeRequest (example_env (\<lambda>n. status_response 200)) (NewRequestHandler None)
           (example_specs\<lparr>RetryCount := 2\<rparr>) = Some (Returned d)
        \<and> specs_after d = example_specs\<lparr>RetryCount := 2\<rparr>)"
proof
  let ?env = "example_env (\<lambda>n. status_response 200)"
  have run: "MakeRequest ?env (NewRequestHandler None) example_specs
             = Some (Returned
                 \<lparr>result = (200, Some ''{}'', Some [], None),
                  handler_after = NewRequestHandler None,
                  specs_after = example_specs\<lparr>RetryCount := 3\<rparr>,
                  trace = [Sent (HTTPClient (NewRequestHandler None)) example_get]\<rparr>)"
    by code_simp
  from specification_after_dispatch [OF run] run
  show "\<exists>d. MakeRequest ?env (NewRequestHandler None) example_specs = Some (Returned d)
        \<and> specs_after d = example_specs\<lparr>RetryCount := 3\<rparr>"
    by simp
next
  let ?env = "example_env (\<lambda>n. status_response 200)"
  have run: "MakeRequest ?env (NewRequestHandler None) (example_specs\<lparr>RetryCount := 2\<rparr>)
             = Some (Returned
                 \<lparr>result = (200, Some ''{}'', Some [], None),
                  handler_after = NewRequestHandler None,
                  specs_after = example_specs\<lparr>RetryCount := 2\<rparr>,
                  trace = [Sent (HTTPClient (NewRequestHandler None)) example_get]\<rparr>)"
    by code_simp
  from specification_after_dispatch [OF run] run
  show "\<exists>d. MakeRequest ?env (NewRequestHandler None) (example_specs\<lparr>RetryCount := 2\<rparr>)
             = Some (Returned d)
        \<and> specs_after d = example_specs\<lparr>RetryCount := 2\<rparr>"
    by simp
qed

text \<open>
  A specification with \<open>RetryCount = 0\<close> is not the same after the dispatch.
\<close>

theorem specification_is_written_counterexample:
  "MakeRequest (example_env (\<lambda>n. status_response 200)) (NewRequestHandler None) example_specs
     = Some (Returned
         \<lparr>result = (200, Some ''{}'', Some [], None),
          handler_after = NewRequestHandler None,
          specs_after = example_specs\<lparr>RetryCount := 3\<rparr>,
          trace = [Sent (HTTPClient (NewRequestHandler None)) example_get]\<rparr>)
   \<and> RetryCount example_specs = 0
   \<and> example_specs\<lparr>RetryCount := 3\<rparr> \<noteq> example_specs"
  by code_simp


subsection \<open>Exhausted retries\<close>

text \<open>
  An attempt whose response is read to the end returns its status, body and headers.
\<close>

lemma sendRequest_status:
  assumes "Do env n c q = DoResponse resp" "BodyReadError resp = None"
  shows "sendRequest env n c q
         = Returned (StatusCode resp, Some (BodyContent resp), ResponseHeader resp, None)"
  using assms by (simp add: sendRequest_def Let_def)

text \<open>
  Claim C2, for the retry counts at which the code keeps it. For a request that can be
  built and \<open>0 \<le> RetryCount < 2 ^ 63 - 1\<close>: when every attempt is answered with status
  503, \<open>MakeRequest\<close> returns after exactly \<open>RetryCount\<close> attempts (3 when \<open>RetryCount\<close>
  is 0), with status 503 and a nil error.
\<close>

theorem all_503_exhausts_retries:
  assumes build: "NewRequest env (HTTPMethod specs) (URL specs) = Inr req"
    and all503: "\<forall>n c q. \<exists>resp. Do env n c q = DoResponse resp \<and> StatusCode resp = 503
                                  \<and> BodyReadError resp = None"
    and nonneg: "0 \<le> sint (RetryCount specs)"
    and notmax: "sint (RetryCount specs) < 2 ^ 63 - 1"
  shows "\<exists>d b h. MakeRequest env r specs = Some (Returned d)
           \<and> int (attempts (trace d))
               = sint (if RetryCount specs = 0 then defaultRetryCount else RetryCount specs)
           \<and> result d = (503, b, h, None)"
proof -
  from prepareRequest_Inr [OF build] obtain c q r' specs'
    where prep: "prepareRequest env r specs = ((c, Some q, None), r', specs')" by blast
  let ?rc = "if RetryCount specs = 0 then defaultRetryCount else RetryCount specs"
  have rc: "RetryCount specs' = ?rc" using prepareRequest_built(2) [OF prep] by simp
  have pos: "0 < sint ?rc"
  proof (cases "RetryCount specs = 0")
    case True
    then show ?thesis by (simp add: defaultRetryCount_def)
  next
    case False
    then have "sint (RetryCount specs) \<noteq> 0" by (simp add: signed_eq_0_iff)
    with nonneg False show ?thesis by simp
  qed
  have small: "sint ?rc < 2 ^ 63 - 1" using notmax by (simp add: defaultRetryCount_def)
  define k where "k = nat (sint ?rc)"
  have kpos: "0 < k" and kint: "int k = sint ?rc" using pos by (simp_all add: k_def)
  have every: "\<And>n. \<exists>b h. attempt env c q n = Returned (503, b, h, None)"
  proof -
    fix n
    from all503 obtain resp
      where "Do env n c (request_at env c q n) = DoResponse resp" "StatusCode resp = 503"
        "BodyReadError resp = None" by blast
    then show "\<exists>b h. attempt env c q n = Returned (503, b, h, None)"
      using sendRequest_status [of env n c "request_at env c q n" resp]
      by (simp add: attempt_def)
  qed
  have dec: "\<forall>j<k. decides_retry (attempt env c q (attempts (effects start) + j))"
  proof (intro allI impI)
    fix j
    from every [of "attempts (effects start) + j"]
    show "decides_retry (attempt env c q (attempts (effects start) + j))"
      by (auto simp add: checkRetryRequired_iff)
  qed
  have cnt: "sint (requestCount start) + int k = sint (RetryCount specs') + 1"
    using kint rc by (simp add: start_fields)
  from loop_exhausts [OF dec cnt] small rc obtain st'
    where run: "retry_loop env c (request_at env c q (attempts (effects start)))
                  (RetryCount specs') start = Some (Returned st')"
      and att: "attempts (effects st') = attempts (effects start) + k"
      and last: "0 < k \<longrightarrow> attempt env c q (attempts (effects start) + k - 1)
                             = Returned (current st')"
    by auto
  from every [of "attempts (effects start) + k - 1"] last kpos
  obtain b h where cur: "current st' = (503, b, h, None)" by auto
  have "MakeRequest env r specs = Some (Returned (dispatch_of r' specs' st'))"
    by (simp add: MakeRequest_built [OF prep] run)
  moreover have "int (attempts (trace (dispatch_of r' specs' st'))) = sint ?rc"
    using att kint by (simp add: dispatch_of_fields start_fields)
  moreover have "result (dispatch_of r' specs' st') = (503, b, h, None)"
    using cur by (simp add: dispatch_of_fields)
  ultimately show ?thesis by blast
qed

text \<open>
  The theorem at the default retry count: three attempts.
\<close>

theorem all_503_exhausts_retries_witness:
  "\<exists>d b h. MakeRequest (example_env (\<lambda>n. status_response 503)) (NewRequestHandler None)
              example_specs = Some (Returned d)
       \<and> int (attempts (trace d)) = 3 \<and> result d = (503, b, h, None)"
proof -
  have 1: "NewRequest (example_env (\<lambda>n. status_response 503)) (HTTPMethod example_specs)
             (URL example_specs) = Inr example_get"
    by (simp add: example_defs)
  have 2: "\<forall>n c q. \<exists>resp. Do (example_env (\<lambda>n. status_response 503)) n c q = DoResponse resp
             \<and> StatusCode resp = 503 \<and> BodyReadError resp = None"
    by (simp add: example_defs)
  have 3: "0 \<le> sint (RetryCount example_specs)" by (simp add: example_defs)
  have 4: "sint (RetryCount example_specs) < 2 ^ 63 - 1" by (simp add: example_defs)
  show ?thesis
    using all_503_exhausts_retries [OF 1 2 3 4, of "NewRequestHandler None"]
    by (simp add: example_defs defaultRetryCount_def)
qed

text \<open>
  With the largest \<open>int\<close> as retry count and every attempt answered 503, the dispatch
  does not return.
\<close>

lemma all_503_max_count_never_returns:
  "MakeRequest (example_env (\<lambda>n. status_response 503)) (NewRequestHandler None)
       (example_specs\<lparr>RetryCount := 9223372036854775807\<rparr>) = None"
proof -
  let ?env = "example_env (\<lambda>n. status_response 503)"
  let ?specs = "example_specs\<lparr>RetryCount := 9223372036854775807\<rparr>"
  have prep: "prepareRequest ?env (NewRequestHandler None) ?specs
        = ((HTTPClient (NewRequestHandler None), Some example_get, None),
           NewRequestHandler None, ?specs)"
    by (simp add: prepareRequest_def example_defs Let_def MethodPost_def)
  have all: "\<forall>n q. decides_retry (sendRequest ?env n (HTTPClient (NewRequestHandler None)) q)"
    by (simp add: sendRequest_def example_defs checkRetryRequired_iff)
  have top: "sint (RetryCount ?specs) = 2 ^ 63 - 1" by simp
  show ?thesis
    by (simp only: MakeRequest_built [OF prep] retry_loop_never_ends [OF all top]) simp
qed

text \<open>
  Outside these bounds the statement fails: with \<open>RetryCount = -1\<close> nothing is sent and the
  status returned is 0; with \<open>RetryCount = 2 ^ 63 - 1\<close> the call never returns.
\<close>

theorem all_503_retry_count_counterexample:
  "MakeRequest (example_env (\<lambda>n. status_response 503)) (NewRequestHandler None)
       (example_specs\<lparr>RetryCount := - 1\<rparr>)
     = Some (Returned
         \<lparr>result = (0, None, None, None), handler_after = NewRequestHandler None,
          specs_after = example_specs\<lparr>RetryCount := - 1\<rparr>, trace = []\<rparr>)
   \<and> MakeRequest (example_env (\<lambda>n. status_response 503)) (NewRequestHandler None)
       (example_specs\<lparr>RetryCount := 9223372036854775807\<rparr>) = None"
proof
  show "MakeRequest (example_env (\<lambda>n. status_response 503)) (NewRequestHandler None)
       (example_specs\<lparr>RetryCount := - 1\<rparr>)
     = Some (Returned
         \<lparr>result = (0, None, None, None), handler_after = NewRequestHandler None,
          specs_after = example_specs\<lparr>RetryCount := - 1\<rparr>, trace = []\<rparr>)"
    by code_simp
  show "MakeRequest (example_env (\<lambda>n. status_response 503)) (NewRequestHandler None)
       (example_specs\<lparr>RetryCount := 9223372036854775807\<rparr>) = None"
    by (rule all_503_max_count_never_returns)
qed


subsection \<open>Terminal status codes\<close>

text \<open>
  Claim C6. Whenever an attempt yields a status code outside the retryable set
  \<open>{408, 503, 504}\<close> and no error, \<open>MakeRequest\<close> stops and returns the result of that
  attempt, with no further attempt. The attempt is the \<open>i\<close>-th of the dispatch, counted
  from 0, each attempt sending the request as the attempts before it left it: the
  attempts before the \<open>i\<close>-th all called for a retry, and \<open>i\<close> is below the retry count in
  force (3 when \<open>RetryCount\<close> is 0), so that the attempt is made. The dispatch then returns
  after exactly \<open>i + 1\<close> attempts.
\<close>

theorem non_retryable_status_stops:
  assumes prep: "prepareRequest env r specs = ((c, Some q, None), r', specs')"
    and earlier: "\<forall>j<i. decides_retry (attempt env c q j)"
    and reached: "int i < sint (if RetryCount specs = 0 then defaultRetryCount
                                else RetryCount specs)"
    and answer: "attempt env c q i = Returned (sc, b, h, None)"
    and terminal: "sc \<notin> {408, 503, 504}"
  shows "\<exists>d. MakeRequest env r specs = Some (Returned d)
            \<and> result d = (sc, b, h, None) \<and> attempts (trace d) = i + 1"
proof -
  have rc: "RetryCount specs' = (if RetryCount specs = 0 then defaultRetryCount
                                 else RetryCount specs)"
    using prepareRequest_built(2) [OF prep] by simp
  have 1: "\<forall>j<i. decides_retry (attempt env c q (attempts (effects start) + j))"
    using earlier by (simp add: start_fields)
  have 2: "sint (requestCount start) + int i \<le> sint (RetryCount specs')"
    using reached rc by (simp add: start_fields)
  have 3: "attempt env c q (attempts (effects start) + i) = Returned (sc, b, h, None)"
    using answer by (simp add: start_fields)
  have 4: "\<not> decides_retry (Returned (sc, b, h, None))"
    using terminal by (simp add: checkRetryRequired_iff)
  from loop_stops_after [OF 1 2 3 4] obtain st'
    where run: "retry_loop env c (request_at env c q (attempts (effects start)))
                  (RetryCount specs') start = Some (Returned st')"
      and cur: "current st' = (sc, b, h, None)"
      and att: "attempts (effects st') = attempts (effects start) + i + 1"
    by blast
  have "MakeRequest env r specs = Some (Returned (dispatch_of r' specs' st'))"
    by (simp add: MakeRequest_built [OF prep] run)
  then show ?thesis using cur att
    by (simp add: dispatch_of_fields start_fields)
qed

text \<open>
  \<open>prepareRequest\<close> on the example specification.
\<close>

lemma example_prepare:
  "prepareRequest (example_env answers) (NewRequestHandler None) example_specs
   = ((HTTPClient (NewRequestHandler None), Some example_get, None),
      NewRequestHandler None, example_specs\<lparr>RetryCount := 3\<rparr>)"
  by (simp add: prepareRequest_def example_defs Let_def MethodPost_def defaultRetryCount_def)

text \<open>
  The theorem at a first answer 409 (one attempt), and at an answer 503 followed by 200
  (two attempts, status 200).
\<close>

theorem non_retryable_status_stops_witness:
  "(\<exists>d. MakeRequest (example_env (\<lambda>n. status_response 409)) (NewRequestHandler None)
           example_specs = Some (Returned d)
        \<and> result d = (409, Some ''{}'', Some [], None) \<and> attempts (trace d) = 1)
   \<and> (\<exists>d. MakeRequest (example_env (\<lambda>n. status_response (if n = 0 then 503 else 200)))
           (NewRequestHandler None) example_specs = Some (Returned d)
        \<and> result d = (200, Some ''{}'', Some [], None) \<and> attempts (trace d) = 2)"
proof
  let ?c = "HTTPClient (NewRequestHandler None)"
  let ?e1 = "example_env (\<lambda>n. status_response 409)"
  have a: "\<forall>j<0. decides_retry (attempt ?e1 ?c example_get j)" by simp
  have b: "int 0 < sint (if RetryCount example_specs = 0 then defaultRetryCount
                         else RetryCount example_specs)"
    by (simp add: example_defs defaultRetryCount_def)
  have c: "attempt ?e1 ?c example_get 0 = Returned (409, Some ''{}'', Some [], None)"
    by (simp add: attempt_def sendRequest_def example_defs)
  have d: "(409::int) \<notin> {408, 503, 504}" by simp
  from non_retryable_status_stops [OF example_prepare a b c d]
  show "\<exists>d. MakeRequest ?e1 (NewRequestHandler None) example_specs = Some (Returned d)
        \<and> result d = (409, Some ''{}'', Some [], None) \<and> attempts (trace d) = 1"
    by simp
next
  let ?c = "HTTPClient (NewRequestHandler None)"
  let ?e2 = "example_env (\<lambda>n. status_response (if n = 0 then 503 else 200))"
  have a: "\<forall>j<1. decides_retry (attempt ?e2 ?c example_get j)"
    by (simp add: attempt_def sendRequest_def example_defs checkRetryRequired_iff)
  have b: "int 1 < sint (if RetryCount example_specs = 0 then defaultRetryCount
                         else RetryCount example_specs)"
    by (simp add: example_defs defaultRetryCount_def)
  have c: "attempt ?e2 ?c example_get 1 = Returned (200, Some ''{}'', Some [], None)"
    by (simp add: attempt_def sendRequest_def example_defs)
  have d: "(200::int) \<notin> {408, 503, 504}" by simp
  from non_retryable_status_stops [OF example_prepare a b c d]
  show "\<exists>d. MakeRequest ?e2 (NewRequestHandler None) example_specs = Some (Returned d)
        \<and> result d = (200, Some ''{}'', Some [], None) \<and> attempts (trace d) = 2"
    by (simp add: numeral_2_eq_2)
qed


subsection \<open>Backoff\<close>

text \<open>
  The first 37 backoff times are below \<open>2 ^ 63\<close> nanoseconds: the product does not wrap.
\<close>

lemma backoff_no_wrap:
  assumes "j < 37"
  shows "sint (100 * Millisecond * 2 ^ j :: 64 word) = 100000000 * 2 ^ j"
proof -
  have le: "(2::int) ^ j \<le> 2 ^ 36" using assms by (intro power_increasing) simp_all
  have w: "(100 * Millisecond * 2 ^ j :: 64 word) = word_of_int (100000000 * 2 ^ j)"
    by (simp add: Millisecond_def)
  have "sint (word_of_int (100000000 * 2 ^ j) :: 64 word)
        = signed_take_bit 63 (100000000 * 2 ^ j :: int)"
    by (simp only: sint_sbintrunc') simp
  also have "\<dots> = 100000000 * 2 ^ j"
  proof (rule signed_take_bit_int_eq_self)
    have "- (2 ^ 63) \<le> (0::int)" by simp
    also have "(0::int) \<le> 100000000 * 2 ^ j" by (rule mult_nonneg_nonneg) simp_all
    finally show "- (2 ^ 63) \<le> (100000000 * 2 ^ j :: int)" .
    have "(100000000 * 2 ^ j :: int) \<le> 100000000 * 2 ^ 36"
      using le by (intro mult_left_mono) simp_all
    also have "\<dots> < 2 ^ 63" by simp
    finally show "(100000000 * 2 ^ j :: int) < 2 ^ 63" .
  qed
  finally show ?thesis using w by simp
qed

text \<open>
  Claim C3, as the code sleeps. In every dispatch that returns, the sleeps are
  \<open>100ms * 2 ^ j\<close> for \<open>j = 0, 1, ...\<close> in this order, computed in 64-bit nanoseconds with no
  cap (the first 37 are exactly 100ms, 200ms, 400ms, ...), and a sleep follows exactly
  the attempts that called for a retry, the final attempt included: the trace is that of
  \<open>backoff_trace\<close>, each attempt sending the request with what the attempts before it
  left of its body, with as many sleeps as attempts when the returned result calls for a
  retry (the retries were exhausted), and one sleep less than attempts otherwise.
\<close>

theorem backoff_sleeps:
  assumes ret: "MakeRequest env r specs = Some (Returned d)"
  shows "sleeps (trace d)
           = map (\<lambda>j. 100 * Millisecond * 2 ^ j) [0..<length (sleeps (trace d))]
       \<and> length (sleeps (trace d))
           = (if decides_retry (Returned (result d)) then attempts (trace d)
              else attempts (trace d) - 1)
       \<and> (\<forall>j<length (sleeps (trace d)).
             j < 37 \<longrightarrow> sint (sleeps (trace d) ! j) = 100000000 * 2 ^ j)
       \<and> (\<exists>c q. trace d = backoff_trace c (request_at env c q) (100 * Millisecond)
                              (length (sleeps (trace d))) (attempts (trace d))
              \<and> (\<forall>j<length (sleeps (trace d)). decides_retry (attempt env c q j)))"
proof -
  have shape: "\<exists>c q m n. trace d = backoff_trace c (request_at env c q) (100 * Millisecond) m n
       \<and> (\<forall>j<m. decides_retry (attempt env c q j))
       \<and> m \<le> n
       \<and> m = (if decides_retry (Returned (result d)) then n else n - 1)"
  proof (cases "NewRequest env (HTTPMethod specs) (URL specs)")
    case (Inl e)
    define q0 where "q0 = \<lparr>Method = HTTPMethod specs, RequestURL = URL specs,
                             RequestHeader = [], RequestBody = None\<rparr>"
    from Inl ret have "trace d = []" "decides_retry (Returned (result d))"
      by (auto simp add: MakeRequest_Inl)
    then have "trace d = backoff_trace (HTTPClient r) (request_at env (HTTPClient r) q0)
                           (100 * Millisecond) 0 0
       \<and> (\<forall>j<0. decides_retry (attempt env (HTTPClient r) q0 j))
       \<and> (0::nat) \<le> 0
       \<and> 0 = (if decides_retry (Returned (result d)) then 0 else 0 - 1)"
      by (simp add: backoff_trace_0)
    then show ?thesis by blast
  next
    case (Inr req)
    from prepareRequest_Inr [OF Inr] obtain c q r' specs'
      where prep: "prepareRequest env r specs = ((c, Some q, None), r', specs')" by blast
    from MakeRequest_returned_built [OF prep ret] obtain st'
      where d: "d = dispatch_of r' specs' st'" and post: "loop_post env c q start st'" by blast
    from post obtain n m where
      eff: "effects st' = effects start
              @ backoff_trace c (\<lambda>j. request_at env c q (attempts (effects start) + j))
                  (baseBackOffTime start) m n"
      and dec: "\<forall>j<m. decides_retry (attempt env c q (attempts (effects start) + j))"
      and zero: "n = 0 \<longrightarrow> st' = start"
      and pos: "0 < n \<longrightarrow> attempt env c q (attempts (effects start) + n - 1)
                            = Returned (current st')"
      and mn: "m = n \<or> (n = Suc m \<and> \<not> decides_retry (Returned (current st')))"
      unfolding loop_post_def by blast
    have 1: "trace d = backoff_trace c (request_at env c q) (100 * Millisecond) m n"
      using eff d by (simp add: dispatch_of_fields start_fields)
    have 2: "\<forall>j<m. decides_retry (attempt env c q j)"
      using dec by (simp add: start_fields)
    have 3: "m \<le> n" using mn by auto
    have res: "result d = current st'" using d by (simp add: dispatch_of_fields)
    have 4: "m = (if decides_retry (Returned (result d)) then n else n - 1)"
    proof (cases "m = n")
      case True
      show ?thesis
      proof (cases n)
        case 0
        with zero have "current st' = (0, None, None, None)" by (simp add: start_fields)
        then show ?thesis using True 0 res by simp
      next
        case (Suc n')
        with pos have "attempt env c q n' = Returned (current st')"
          by (simp add: start_fields)
        moreover have "decides_retry (attempt env c q n')" using 2 True Suc by simp
        ultimately show ?thesis using True res by simp
      qed
    next
      case False
      with mn show ?thesis using res by auto
    qed
    from 1 2 3 4 show ?thesis by blast
  qed
  then obtain c q m n
    where tr: "trace d = backoff_trace c (request_at env c q) (100 * Millisecond) m n"
    and dec: "\<forall>j<m. decides_retry (attempt env c q j)"
    and le: "m \<le> n"
    and m: "m = (if decides_retry (Returned (result d)) then n else n - 1)"
    by blast
  have att: "attempts (trace d) = n" by (simp add: tr attempts_backoff_trace)
  have sl: "sleeps (trace d) = map (\<lambda>j. 100 * Millisecond * 2 ^ j) [0..<m]"
    using le by (simp add: tr sleeps_backoff_trace min_absorb1)
  have len: "length (sleeps (trace d)) = m" by (simp add: sl)
  show ?thesis
  proof (intro conjI)
    show "sleeps (trace d)
           = map (\<lambda>j. 100 * Millisecond * 2 ^ j) [0..<length (sleeps (trace d))]"
      using sl len by simp
    show "length (sleeps (trace d))
           = (if decides_retry (Returned (result d)) then attempts (trace d)
              else attempts (trace d) - 1)"
      using len att m by simp
    show "\<forall>j<length (sleeps (trace d)).
             j < 37 \<longrightarrow> sint (sleeps (trace d) ! j) = 100000000 * 2 ^ j"
      using len by (simp add: sl backoff_no_wrap)
    show "\<exists>c q. trace d = backoff_trace c (request_at env c q) (100 * Millisecond)
                              (length (sleeps (trace d))) (attempts (trace d))
              \<and> (\<forall>j<length (sleeps (trace d)). decides_retry (attempt env c q j))"
      using tr dec len att by auto
  qed
qed

text \<open>
  The example dispatch answered 503 three times, and the POST answered 503 and then 200.
\<close>

lemma exhausted_run:
  "MakeRequest (example_env (\<lambda>n. status_response 503)) (NewRequestHandler None)
       example_specs = Some (Returned exhausted_dispatch)"
  by code_simp

lemma retried_post_run:
  "MakeRequest (example_env (\<lambda>n. status_response (if n = 0 then 503 else 200)))
       (NewRequestHandler None) example_post_specs = Some (Returned retried_post_dispatch)"
  by code_simp

lemma retried_post_trace:
  "trace retried_post_dispatch
   = backoff_trace (HTTPClient (NewRequestHandler None))
       (request_at (example_env (\<lambda>n. status_response (if n = 0 then 503 else 200)))
          (HTTPClient (NewRequestHandler None)) (example_post ''abc''))
       (100 * Millisecond) 1 2"
  by code_simp

text \<open>
  The theorem at these dispatches: three attempts and three sleeps of 100ms, 200ms and
  400ms; two attempts, the second with an empty body, and one sleep of 100ms between
  them.
\<close>

theorem backoff_sleeps_witness:
  "MakeRequest (example_env (\<lambda>n. status_response 503)) (NewRequestHandler None)
       example_specs = Some (Returned exhausted_dispatch)
   \<and> sleeps (trace exhausted_dispatch)
       = [100 * Millisecond, 200 * Millisecond, 400 * Millisecond]
   \<and> map sint (sleeps (trace exhausted_dispatch)) = [100000000, 200000000, 400000000]
   \<and> length (sleeps (trace exhausted_dispatch)) = attempts (trace exhausted_dispatch)
   \<and> decides_retry (Returned (result exhausted_dispatch))
   \<and> MakeRequest (example_env (\<lambda>n. status_response (if n = 0 then 503 else 200)))
       (NewRequestHandler None) example_post_specs = Some (Returned retried_post_dispatch)
   \<and> sleeps (trace retried_post_dispatch) = [100 * Millisecond]
   \<and> length (sleeps (trace retried_post_dispatch)) = attempts (trace retried_post_dispatch) - 1
   \<and> \<not> decides_retry (Returned (result retried_post_dispatch))
   \<and> trace retried_post_dispatch
       = backoff_trace (HTTPClient (NewRequestHandler None))
           (request_at (example_env (\<lambda>n. status_response (if n = 0 then 503 else 200)))
              (HTTPClient (NewRequestHandler None)) (example_post ''abc''))
           (100 * Millisecond) 1 2"
proof -
  have s: "sleeps (trace exhausted_dispatch)
           = [100 * Millisecond, 200 * Millisecond, 400 * Millisecond]"
    and a: "attempts (trace exhausted_dispatch) = 3"
    and m: "map sint (sleeps (trace exhausted_dispatch)) = [100000000, 200000000, 400000000]"
    and r: "decides_retry (Returned (result exhausted_dispatch))"
    by (simp_all add: exhausted_dispatch_def Millisecond_def checkRetryRequired_iff)
  have s': "sleeps (trace retried_post_dispatch) = [100 * Millisecond]"
    and a': "attempts (trace retried_post_dispatch) = 2"
    and r': "\<not> decides_retry (Returned (result retried_post_dispatch))"
    by (simp_all add: retried_post_dispatch_def checkRetryRequired_iff)
  from backoff_sleeps [OF exhausted_run] backoff_sleeps [OF retried_post_run]
    s a m r s' a' r' exhausted_run retried_post_run retried_post_trace
  show ?thesis by simp
qed

text \<open>
  With \<open>RetryCount = 1\<close> and the answer 503, the only attempt is the final one, and a sleep
  of 100ms follows it.
\<close>

theorem sleep_after_final_attempt_counterexample:
  "MakeRequest (example_env (\<lambda>n. status_response 503)) (NewRequestHandler None)
       (example_specs\<lparr>RetryCount := 1\<rparr>)
     = Some (Returned
         \<lparr>result = (503, Some ''{}'', Some [], None),
          handler_after = NewRequestHandler None,
          specs_after = example_specs\<lparr>RetryCount := 1\<rparr>,
          trace = [Sent (HTTPClient (NewRequestHandler None)) example_get,
                   Slept (100 * Millisecond)]\<rparr>)"
  by code_simp


subsection \<open>The timeout of the client\<close>







end
